theory Spec2Isabelle
  imports Complex_Main "HOL-Library.Word" "HOL-Library.Multiset"
begin

section \<open>Strings, errors and the entropy source\<close>

text \<open>
  A JavaScript string is a sequence of UTF-16 code units: \<open>length\<close>, \<open>substring\<close>,
  indexing and a regular expression without the \<open>u\<close> flag all work on code units.
  String literals of the source are ASCII and are written through \<open>str\<close>.
\<close>

type_synonym code_unit = "16 word"
type_synonym js_string = "code_unit list"

definition str :: "string \<Rightarrow> js_string" where
  "str s = map (\<lambda>c. of_nat (of_char c)) s"

text \<open>
  \<open>throw new Error(msg)\<close> is \<open>Error msg\<close>; \<open>crypto.randomInt(min, max)\<close> raises a
  RangeError when \<open>max\<close> is not greater than \<open>min\<close>.
\<close>

datatype error = Error string | RangeError

text \<open>
  The operating system's entropy source is an infinite tape of naturals, read from the
  front. \<open>crypto.randomInt(min, max)\<close> returns some integer \<open>n\<close> with
  \<open>min \<le> n < max\<close>; reducing the next tape cell modulo the width of the range yields
  every such integer for a suitable tape and nothing else.
\<close>

type_synonym entropy_source = "nat \<Rightarrow> nat"

definition advance :: "entropy_source \<Rightarrow> entropy_source" where
  "advance g = (\<lambda>i. g (Suc i))"

definition randomInt :: "nat \<Rightarrow> nat \<Rightarrow> entropy_source \<Rightarrow> error + (nat \<times> entropy_source)" where
  "randomInt lo hi g =
     (if hi \<le> lo then Inl RangeError
      else Inr (lo + g 0 mod (hi - lo), advance g))"

text \<open>A tape for evaluating the generator on concrete inputs.\<close>

definition sample_tape :: entropy_source where
  "sample_tape i = 7 * i + 3"

text \<open>\<open>secureRandomChar\<close>: the index is in range whenever \<open>randomInt\<close> returns.\<close>

definition secureRandomChar :: "js_string \<Rightarrow> entropy_source \<Rightarrow> error + (code_unit \<times> entropy_source)" where
  "secureRandomChar chars g =
     (case randomInt 0 (length chars) g of
        Inl e \<Rightarrow> Inl e
      | Inr (randomIndex, g') \<Rightarrow> Inr (chars ! randomIndex, g'))"

text \<open>
  \<open>secureShuffleArray\<close>: Fisher-Yates on a copy. The loop variable runs from
  \<open>length - 1\<close> down to 1; on the empty array the source starts at -1 and the loop body
  never runs, as here with the truncated \<open>0 - 1 = 0\<close>.
\<close>

fun shuffle_loop :: "nat \<Rightarrow> 'a list \<Rightarrow> entropy_source \<Rightarrow> error + ('a list \<times> entropy_source)" where
  "shuffle_loop 0 result g = Inr (result, g)"
| "shuffle_loop (Suc k) result g =
     (case randomInt 0 (Suc k + 1) g of
        Inl e \<Rightarrow> Inl e
      | Inr (j, g') \<Rightarrow>
          shuffle_loop k (result[Suc k := result ! j, j := result ! Suc k]) g')"

definition secureShuffleArray :: "'a list \<Rightarrow> entropy_source \<Rightarrow> error + ('a list \<times> entropy_source)" where
  "secureShuffleArray array g = shuffle_loop (length array - 1) array g"

section \<open>Password generator\<close>

record GenerateOptions =
  length_opt :: "int option"
  uppercase :: "bool option"
  lowercase :: "bool option"
  numbers :: "bool option"
  symbols :: "bool option"
  excludeAmbiguous :: "bool option"

text \<open>Destructuring with defaults: an absent field takes its default.\<close>

definition or_default :: "'a \<Rightarrow> 'a option \<Rightarrow> 'a" where
  "or_default d v = (case v of None \<Rightarrow> d | Some x \<Rightarrow> x)"

definition CHARS_uppercase :: js_string where
  "CHARS_uppercase = str ''ABCDEFGHIJKLMNOPQRSTUVWXYZ''"

definition CHARS_lowercase :: js_string where
  "CHARS_lowercase = str ''abcdefghijklmnopqrstuvwxyz''"

definition CHARS_numbers :: js_string where
  "CHARS_numbers = str ''0123456789''"

definition CHARS_symbols :: js_string where
  "CHARS_symbols = str ''!@#$%^&*()_+-=[]{}|;:,.<>?''"

text \<open>\<open>chars.replace(/[...]/g, '')\<close> deletes every occurrence of the listed characters.\<close>

definition remove_chars :: "string \<Rightarrow> js_string \<Rightarrow> js_string" where
  "remove_chars cls chars = filter (\<lambda>c. c \<notin> set (str cls)) chars"

definition uppercase_chars :: "bool \<Rightarrow> js_string" where
  "uppercase_chars excl = (if excl then remove_chars ''IO'' CHARS_uppercase else CHARS_uppercase)"

definition lowercase_chars :: "bool \<Rightarrow> js_string" where
  "lowercase_chars excl = (if excl then remove_chars ''l'' CHARS_lowercase else CHARS_lowercase)"

definition numbers_chars :: "bool \<Rightarrow> js_string" where
  "numbers_chars excl = (if excl then remove_chars ''01'' CHARS_numbers else CHARS_numbers)"

text \<open>
  One \<open>if (class) { ... }\<close> block of \<open>generatePassword\<close>: the class's characters are
  appended to \<open>charset\<close> and one character drawn from them is pushed on \<open>required\<close>.
  The state is \<open>(charset, required)\<close> and the entropy source.
\<close>

definition add_class ::
  "bool \<Rightarrow> js_string \<Rightarrow> (js_string \<times> js_string) \<times> entropy_source
    \<Rightarrow> error + ((js_string \<times> js_string) \<times> entropy_source)" where
  "add_class enabled chars st =
     (case st of ((charset, required), g) \<Rightarrow>
        if enabled then
          (case secureRandomChar chars g of
             Inl e \<Rightarrow> Inl e
           | Inr (c, g') \<Rightarrow> Inr ((charset @ chars, required @ [c]), g'))
        else Inr st)"

text \<open>\<open>for (let i = required.length; i < minLength; i++) remaining.push(...)\<close>\<close>

function fill_remaining ::
  "int \<Rightarrow> int \<Rightarrow> js_string \<Rightarrow> js_string \<Rightarrow> entropy_source
    \<Rightarrow> error + (js_string \<times> entropy_source)" where
  "fill_remaining i minLength charset remaining g =
     (if i < minLength then
        (case secureRandomChar charset g of
           Inl e \<Rightarrow> Inl e
         | Inr (c, g') \<Rightarrow> fill_remaining (i + 1) minLength charset (remaining @ [c]) g')
      else Inr (remaining, g))"
  by pat_completeness auto
termination
  by (relation "measure (\<lambda>(i, minLength, charset, remaining, g). nat (minLength - i))") auto

definition generatePassword ::
  "GenerateOptions \<Rightarrow> entropy_source \<Rightarrow> error + (js_string \<times> entropy_source)" where
  "generatePassword options g =
     (let len = or_default 16 (length_opt options);
          upper = or_default True (uppercase options);
          lower = or_default True (lowercase options);
          nums = or_default True (numbers options);
          syms = or_default True (symbols options);
          excl = or_default False (excludeAmbiguous options)
      in case add_class upper (uppercase_chars excl) (([], []), g) of
           Inl e \<Rightarrow> Inl e
         | Inr st1 \<Rightarrow>
      (case add_class lower (lowercase_chars excl) st1 of
           Inl e \<Rightarrow> Inl e
         | Inr st2 \<Rightarrow>
      (case add_class nums (numbers_chars excl) st2 of
           Inl e \<Rightarrow> Inl e
         | Inr st3 \<Rightarrow>
      (case add_class syms CHARS_symbols st3 of
           Inl e \<Rightarrow> Inl e
         | Inr ((charset, required), g4) \<Rightarrow>
             if length charset = 0
             then Inl (Error ''At least one character type must be enabled'')
             else
               (let minLength = max len (int (length required))
                in case fill_remaining (int (length required)) minLength charset [] g4 of
                     Inl e \<Rightarrow> Inl e
                   | Inr (remaining, g5) \<Rightarrow> secureShuffleArray (required @ remaining) g5)))))"

text \<open>
  The number of class flags that are on once the defaults are resolved, and the pool of
  characters of the enabled classes, for stating what \<open>generatePassword\<close> returns.
\<close>

definition enabled_count :: "GenerateOptions \<Rightarrow> nat" where
  "enabled_count options =
     length (filter id
       [or_default True (uppercase options), or_default True (lowercase options),
        or_default True (numbers options), or_default True (symbols options)])"

definition enabled_pool :: "GenerateOptions \<Rightarrow> code_unit set" where
  "enabled_pool options =
     (let excl = or_default False (excludeAmbiguous options) in
      (if or_default True (uppercase options) then set (uppercase_chars excl) else {})
      \<union> (if or_default True (lowercase options) then set (lowercase_chars excl) else {})
      \<union> (if or_default True (numbers options) then set (numbers_chars excl) else {})
      \<union> (if or_default True (symbols options) then set CHARS_symbols else {}))"

text \<open>\<open>generateBatch\<close>: \<open>for (let i = 0; i < maxCount; i++) passwords.push(...)\<close>\<close>

function batch_loop ::
  "int \<Rightarrow> int \<Rightarrow> GenerateOptions \<Rightarrow> js_string list \<Rightarrow> entropy_source
    \<Rightarrow> error + (js_string list \<times> entropy_source)" where
  "batch_loop i maxCount options passwords g =
     (if i < maxCount then
        (case generatePassword options g of
           Inl e \<Rightarrow> Inl e
         | Inr (pw, g') \<Rightarrow> batch_loop (i + 1) maxCount options (passwords @ [pw]) g')
      else Inr (passwords, g))"
  by pat_completeness auto
termination
  by (relation "measure (\<lambda>(i, maxCount, options, passwords, g). nat (maxCount - i))") auto

definition generateBatch ::
  "int \<Rightarrow> GenerateOptions \<Rightarrow> entropy_source \<Rightarrow> error + (js_string list \<times> entropy_source)" where
  "generateBatch cnt options g = batch_loop 0 (min cnt 100) options [] g"

section \<open>Strength analyzer\<close>

datatype level = very_weak | weak | fair | strong | very_strong

record StrengthResult =
  password :: js_string
  score :: int
  level :: level
  feedback :: "string list"
  entropy :: real
  crackTime :: string

subsection \<open>The regular expressions of the analyzer\<close>

text \<open>\<open>/[a-z]/\<close>, \<open>/[A-Z]/\<close>, \<open>/\d/\<close> (ASCII digits only in JavaScript) and the symbol class.\<close>

definition is_lower :: "code_unit \<Rightarrow> bool" where
  "is_lower c = (0x61 \<le> c \<and> c \<le> 0x7A)"

definition is_upper :: "code_unit \<Rightarrow> bool" where
  "is_upper c = (0x41 \<le> c \<and> c \<le> 0x5A)"

definition is_digit :: "code_unit \<Rightarrow> bool" where
  "is_digit c = (0x30 \<le> c \<and> c \<le> 0x39)"

definition is_symbol :: "code_unit \<Rightarrow> bool" where
  "is_symbol c = (c \<in> set (str ''!@#$%^&*()_+-=[]{}|;:,.<>?''))"

text \<open>
  \<open>.\<close> without the \<open>s\<close> flag matches any code unit except the line terminators
  LF, CR, U+2028 and U+2029.
\<close>

definition line_terminator :: "code_unit \<Rightarrow> bool" where
  "line_terminator c = (c = 0x0A \<or> c = 0x0D \<or> c = 0x2028 \<or> c = 0x2029)"

text \<open>\<open>/(.)\1{2,}/\<close>: some code unit matched by \<open>.\<close> occurs three times in a row.\<close>

fun has_repeat :: "js_string \<Rightarrow> bool" where
  "has_repeat (a # b # c # rest) =
     ((\<not> line_terminator a \<and> b = a \<and> c = a) \<or> has_repeat (b # c # rest))"
| "has_repeat _ = False"

text \<open>\<open>/^[a-zA-Z]+$/\<close> and \<open>/^[0-9]+$/\<close>: no \<open>m\<close> flag, so the anchors are the ends of the input.\<close>

definition letters_only :: "js_string \<Rightarrow> bool" where
  "letters_only p = (p \<noteq> [] \<and> list_all (\<lambda>c. is_lower c \<or> is_upper c) p)"

definition digits_only :: "js_string \<Rightarrow> bool" where
  "digits_only p = (p \<noteq> [] \<and> list_all is_digit p)"

text \<open>
  The \<open>i\<close> flag (without \<open>u\<close>) compares canonicalized code units. The patterns are
  ASCII letters and digits; canonicalization maps a-z to A-Z and never maps a code unit
  from 128 up into the ASCII range, so only the two ASCII cases of a letter match it.
\<close>

definition canonicalize :: "code_unit \<Rightarrow> code_unit" where
  "canonicalize c = (if is_lower c then c - 0x20 else c)"

fun matches_at_ci :: "js_string \<Rightarrow> js_string \<Rightarrow> bool" where
  "matches_at_ci [] s = True"
| "matches_at_ci (x # pat) [] = False"
| "matches_at_ci (x # pat) (c # s) = (canonicalize x = canonicalize c \<and> matches_at_ci pat s)"

fun contains_ci :: "js_string \<Rightarrow> js_string \<Rightarrow> bool" where
  "contains_ci pat [] = matches_at_ci pat []"
| "contains_ci pat (c # s) = (matches_at_ci pat (c # s) \<or> contains_ci pat s)"

definition sequential_patterns :: "string list" where
  "sequential_patterns =
     [''abc'', ''bcd'', ''cde'', ''def'', ''efg'', ''fgh'', ''ghi'', ''hij'', ''ijk'', ''jkl'',
      ''klm'', ''lmn'', ''mno'', ''nop'', ''opq'', ''pqr'', ''qrs'', ''rst'', ''stu'', ''tuv'',
      ''uvw'', ''vwx'', ''wxy'', ''xyz'', ''012'', ''123'', ''234'', ''345'', ''456'', ''567'',
      ''678'', ''789'']"

definition keyboard_patterns :: "string list" where
  "keyboard_patterns = [''qwert'', ''asdf'', ''zxcv'']"

definition matches_any_ci :: "string list \<Rightarrow> js_string \<Rightarrow> bool" where
  "matches_any_ci pats p = list_ex (\<lambda>pat. contains_ci (str pat) p) pats"

subsection \<open>Crack time\<close>

text \<open>
  Numbers are IEEE doubles in the source and reals here: the rounding error of the
  floating-point operations is not modelled. \<open>Math.round x\<close> is \<open>\<lfloor>x + 1/2\<rfloor>\<close>, which is
  \<open>round\<close>. A template literal prints an integer below \<open>10^21\<close> in decimal digits.
\<close>

fun digits_of_nat :: "nat \<Rightarrow> string" where
  "digits_of_nat n =
     (if n < 10 then [char_of (48 + n)]
      else digits_of_nat (n div 10) @ [char_of (48 + n mod 10)])"

definition number_to_string :: "int \<Rightarrow> string" where
  "number_to_string i = (if i < 0 then CHR ''-'' # digits_of_nat (nat (- i)) else digits_of_nat (nat i))"

definition crack_seconds :: "real \<Rightarrow> real" where
  "crack_seconds e = 2 powr e / 10000000000 / 2"

definition estimateCrackTime :: "real \<Rightarrow> string" where
  "estimateCrackTime e =
     (let seconds = crack_seconds e in
      if seconds < 1 then ''instant''
      else if seconds < 60 then number_to_string (round seconds) @ '' seconds''
      else if seconds < 3600 then number_to_string (round (seconds / 60)) @ '' minutes''
      else if seconds < 86400 then number_to_string (round (seconds / 3600)) @ '' hours''
      else if seconds < 31536000 then number_to_string (round (seconds / 86400)) @ '' days''
      else if seconds < 31536000 * 100
        then number_to_string (round (seconds / 31536000)) @ '' years''
      else if seconds < 31536000 * 1000000
        then number_to_string (round (seconds / 31536000 / 1000)) @ '' thousand years''
      else if seconds < 31536000 * 1000000000
        then number_to_string (round (seconds / 31536000 / 1000000)) @ '' million years''
      else ''billions of years'')"

subsection \<open>analyzeStrength\<close>

definition hasLower :: "js_string \<Rightarrow> bool" where
  "hasLower p = list_ex is_lower p"

definition hasUpper :: "js_string \<Rightarrow> bool" where
  "hasUpper p = list_ex is_upper p"

definition hasNumber :: "js_string \<Rightarrow> bool" where
  "hasNumber p = list_ex is_digit p"

definition hasSymbol :: "js_string \<Rightarrow> bool" where
  "hasSymbol p = list_ex is_symbol p"

text \<open>The score before \<open>Math.max(0, Math.min(10, score))\<close>, in the order of the source.\<close>

definition raw_score :: "js_string \<Rightarrow> int" where
  "raw_score p =
     (if length p \<ge> 8 then 1 else 0) + (if length p \<ge> 12 then 1 else 0)
     + (if length p \<ge> 16 then 1 else 0) + (if length p \<ge> 20 then 1 else 0)
     + (if hasLower p then 1 else 0) + (if hasUpper p then 1 else 0)
     + (if hasNumber p then 1 else 0) + (if hasSymbol p then 1 else 0)
     - (if length p < 8 then 2 else 0)
     - (if has_repeat p then 1 else 0)
     - (if letters_only p then 1 else 0)
     - (if digits_only p then 2 else 0)
     - (if matches_any_ci sequential_patterns p then 1 else 0)
     - (if matches_any_ci keyboard_patterns p then 1 else 0)"

text \<open>The feedback pushed before the final \<open>if (feedback.length === 0)\<close>.\<close>

definition raw_feedback :: "js_string \<Rightarrow> string list" where
  "raw_feedback p =
     (if length p < 8 then [''Password is too short (minimum 8 characters)''] else [])
     @ (if \<not> hasLower p then [''Add lowercase letters''] else [])
     @ (if \<not> hasUpper p then [''Add uppercase letters''] else [])
     @ (if \<not> hasNumber p then [''Add numbers''] else [])
     @ (if \<not> hasSymbol p then [''Add special characters''] else [])
     @ (if has_repeat p then [''Avoid repeated characters''] else [])
     @ (if letters_only p then [''Mix in numbers and symbols''] else [])
     @ (if digits_only p then [''Include letters and symbols''] else [])
     @ (if matches_any_ci sequential_patterns p then [''Avoid sequential patterns''] else [])
     @ (if matches_any_ci keyboard_patterns p then [''Avoid keyboard patterns''] else [])"

definition charsetSize :: "js_string \<Rightarrow> nat" where
  "charsetSize p =
     (if hasLower p then 26 else 0) + (if hasUpper p then 26 else 0)
     + (if hasNumber p then 10 else 0) + (if hasSymbol p then 32 else 0)"

text \<open>\<open>password.length * Math.log2(charsetSize || 1)\<close>, before the result is rounded.\<close>

definition raw_entropy :: "js_string \<Rightarrow> real" where
  "raw_entropy p =
     real (length p) * log 2 (real (if charsetSize p = 0 then 1 else charsetSize p))"

definition level_of :: "int \<Rightarrow> level" where
  "level_of s =
     (if s \<le> 2 then very_weak else if s \<le> 4 then weak else if s \<le> 6 then fair
      else if s \<le> 8 then strong else very_strong)"

definition analyzeStrength :: "js_string \<Rightarrow> StrengthResult" where
  "analyzeStrength p =
     (let score = max 0 (min 10 (raw_score p));
          feedback = (if length (raw_feedback p) = 0 then [''Password looks strong!'']
                      else raw_feedback p)
      in \<lparr> password = take 3 p @ concat (replicate (nat (max 0 (int (length p) - 3))) (str ''*'')),
           score = score,
           level = level_of score,
           feedback = feedback,
           entropy = real_of_int (round (raw_entropy p * 100)) / 100,
           crackTime = estimateCrackTime (raw_entropy p) \<rparr>)"

text \<open>
  The call of the exported \<open>analyzeStrength\<close> as the caller sees it: the function has no
  \<open>throw\<close>, none of its operations raises (the count given to \<open>repeat\<close> is never
  negative), and it never reads the entropy source.
\<close>

definition analyze :: "js_string \<Rightarrow> entropy_source \<Rightarrow> error + (StrengthResult \<times> entropy_source)" where
  "analyze p g = Inr (analyzeStrength p, g)"

section \<open>The POST /strength handler\<close>

text \<open>
  The value of \<open>req.body.password\<close>: absent (\<open>undefined\<close>) or any JSON value. \<open>JObject\<close>
  stands for every object and array.
\<close>

datatype js_value =
  JUndefined | JNull | JBoolean bool | JNumber real | JString js_string | JObject

fun falsy :: "js_value \<Rightarrow> bool" where
  "falsy JUndefined = True"
| "falsy JNull = True"
| "falsy (JBoolean b) = (\<not> b)"
| "falsy (JNumber x) = (x = 0)"
| "falsy (JString s) = (length s = 0)"
| "falsy JObject = False"

text \<open>The body of the handler's \<open>try\<close> block; the \<open>catch\<close> turns an error into a 400 response.\<close>

fun post_strength :: "js_value \<Rightarrow> entropy_source \<Rightarrow> error + (StrengthResult \<times> entropy_source)" where
  "post_strength (JString p) g =
     (if falsy (JString p) then Inl (Error ''Password is required'')
      else if length p > 1000 then Inl (Error ''Password too long (max 1000 characters)'')
      else analyze p g)"
| "post_strength v g = Inl (Error ''Password is required'')"

section \<open>Properties of the generator\<close>

subsection \<open>Every call made with a non-empty character set returns\<close>

lemma secureRandomChar_Inr:
  "chars \<noteq> [] \<Longrightarrow> \<exists>c g'. secureRandomChar chars g = Inr (c, g') \<and> c \<in> set chars"
  by (simp add: secureRandomChar_def randomInt_def)

lemma shuffle_loop_Inr:
  "k < length xs \<or> k = 0 \<Longrightarrow> \<exists>ys g'. shuffle_loop k xs g = Inr (ys, g') \<and> mset ys = mset xs"
proof (induction k arbitrary: xs g)
  case 0
  then show ?case by simp
next
  case (Suc k)
  let ?j = "g 0 mod (Suc k + 1)"
  let ?xs = "xs[Suc k := xs ! ?j, ?j := xs ! Suc k]"
  from Suc.prems have lt: "Suc k < length xs" by simp
  have "?j < Suc k + 1" by (rule mod_less_divisor) simp
  with lt have j: "?j < length xs" by linarith
  have "k < length ?xs \<or> k = 0" using lt by simp
  from Suc.IH[OF this, of "advance g"] obtain ys g' where
    r: "shuffle_loop k ?xs (advance g) = Inr (ys, g')" and m: "mset ys = mset ?xs" by blast
  have "mset ?xs = mset xs" using lt j by (simp add: mset_swap)
  with r m show ?case by (simp add: randomInt_def)
qed

lemma secureShuffleArray_Inr:
  "\<exists>ys g'. secureShuffleArray xs g = Inr (ys, g') \<and> mset ys = mset xs"
  unfolding secureShuffleArray_def
  by (rule shuffle_loop_Inr) (cases xs, auto)

lemma fill_remaining_Inr:
  "charset \<noteq> [] \<Longrightarrow>
   \<exists>r g'. fill_remaining i m charset rem g = Inr (r, g')
     \<and> length r = length rem + nat (m - i) \<and> set r \<subseteq> set rem \<union> set charset"
proof (induction i m charset rem g rule: fill_remaining.induct)
  case (1 i minLength charset remaining g)
  show ?case
  proof (cases "i < minLength")
    case False
    then show ?thesis by (subst fill_remaining.simps) simp
  next
    case True
    from secureRandomChar_Inr[OF "1.prems", of g] obtain c g1 where
      c: "secureRandomChar charset g = Inr (c, g1)" "c \<in> set charset" by blast
    from "1.IH"[OF True c(1) refl "1.prems"]
    obtain r g' where r: "fill_remaining (i + 1) minLength charset (remaining @ [c]) g1 = Inr (r, g')"
      "length r = length (remaining @ [c]) + nat (minLength - (i + 1))"
      "set r \<subseteq> set (remaining @ [c]) \<union> set charset" by blast
    have "fill_remaining i minLength charset remaining g = Inr (r, g')"
      using True c(1) r(1) by (subst fill_remaining.simps) simp
    moreover have "length r = length remaining + nat (minLength - i)" using r(2) True by simp
    moreover have "set r \<subseteq> set remaining \<union> set charset" using r(3) c(2) by auto
    ultimately show ?thesis by blast
  qed
qed

lemma add_class_Inr:
  "chars \<noteq> [] \<Longrightarrow>
   \<exists>c g'. c \<in> set chars \<and>
     add_class en chars ((cs, req), g)
       = Inr ((if en then cs @ chars else cs, if en then req @ [c] else req), g')"
proof (cases en)
  case False
  assume "chars \<noteq> []"
  then obtain c where "c \<in> set chars" by (cases chars) auto
  with False show ?thesis by (auto simp: add_class_def)
next
  case True
  assume "chars \<noteq> []"
  from secureRandomChar_Inr[OF this, of g] obtain c g1 where
    "secureRandomChar chars g = Inr (c, g1)" "c \<in> set chars" by blast
  with True show ?thesis by (auto simp: add_class_def)
qed

lemma class_chars_nonempty:
  "uppercase_chars excl \<noteq> []" "lowercase_chars excl \<noteq> []" "numbers_chars excl \<noteq> []"
  "CHARS_symbols \<noteq> []"
  by (simp_all add: uppercase_chars_def lowercase_chars_def numbers_chars_def remove_chars_def
      CHARS_uppercase_def CHARS_lowercase_def CHARS_numbers_def CHARS_symbols_def str_def)

lemma generatePassword_shape:
  assumes en: "or_default True (uppercase opts) \<or> or_default True (lowercase opts)
     \<or> or_default True (numbers opts) \<or> or_default True (symbols opts)"
  shows "\<exists>pw g' req rem.
     generatePassword opts g = Inr (pw, g') \<and> mset pw = mset (req @ rem)
     \<and> length req = enabled_count opts
     \<and> length rem = nat (max (or_default 16 (length_opt opts)) (int (length req)) - int (length req))
     \<and> set (req @ rem) \<subseteq> enabled_pool opts
     \<and> (or_default True (uppercase opts) \<longrightarrow>
           (\<exists>c\<in>set req. c \<in> set (uppercase_chars (or_default False (excludeAmbiguous opts)))))
     \<and> (or_default True (lowercase opts) \<longrightarrow>
           (\<exists>c\<in>set req. c \<in> set (lowercase_chars (or_default False (excludeAmbiguous opts)))))
     \<and> (or_default True (numbers opts) \<longrightarrow>
           (\<exists>c\<in>set req. c \<in> set (numbers_chars (or_default False (excludeAmbiguous opts)))))
     \<and> (or_default True (symbols opts) \<longrightarrow> (\<exists>c\<in>set req. c \<in> set CHARS_symbols))"
proof -
  define U where "U = or_default True (uppercase opts)"
  define L where "L = or_default True (lowercase opts)"
  define N where "N = or_default True (numbers opts)"
  define S where "S = or_default True (symbols opts)"
  define X where "X = or_default False (excludeAmbiguous opts)"
  define len where "len = or_default 16 (length_opt opts)"
  note defs = U_def L_def N_def S_def X_def len_def
  obtain c1 g1 where c1: "c1 \<in> set (uppercase_chars X)"
    and s1: "add_class U (uppercase_chars X) (([], []), g)
              = Inr ((if U then [] @ uppercase_chars X else [], if U then [] @ [c1] else []), g1)"
    using add_class_Inr[OF class_chars_nonempty(1)] by blast
  define cs1 where "cs1 = (if U then [] @ uppercase_chars X else [])"
  define rq1 where "rq1 = (if U then [] @ [c1] else [])"
  obtain c2 g2 where c2: "c2 \<in> set (lowercase_chars X)"
    and s2: "add_class L (lowercase_chars X) ((cs1, rq1), g1)
              = Inr ((if L then cs1 @ lowercase_chars X else cs1, if L then rq1 @ [c2] else rq1), g2)"
    using add_class_Inr[OF class_chars_nonempty(2)] by blast
  define cs2 where "cs2 = (if L then cs1 @ lowercase_chars X else cs1)"
  define rq2 where "rq2 = (if L then rq1 @ [c2] else rq1)"
  obtain c3 g3 where c3: "c3 \<in> set (numbers_chars X)"
    and s3: "add_class N (numbers_chars X) ((cs2, rq2), g2)
              = Inr ((if N then cs2 @ numbers_chars X else cs2, if N then rq2 @ [c3] else rq2), g3)"
    using add_class_Inr[OF class_chars_nonempty(3)] by blast
  define cs3 where "cs3 = (if N then cs2 @ numbers_chars X else cs2)"
  define rq3 where "rq3 = (if N then rq2 @ [c3] else rq2)"
  obtain c4 g4 where c4: "c4 \<in> set CHARS_symbols"
    and s4: "add_class S CHARS_symbols ((cs3, rq3), g3)
              = Inr ((if S then cs3 @ CHARS_symbols else cs3, if S then rq3 @ [c4] else rq3), g4)"
    using add_class_Inr[OF class_chars_nonempty(4)] by blast
  define cs4 where "cs4 = (if S then cs3 @ CHARS_symbols else cs3)"
  define rq4 where "rq4 = (if S then rq3 @ [c4] else rq3)"
  have cs4_set: "set cs4 = enabled_pool opts"
    by (simp add: cs4_def cs3_def cs2_def cs1_def enabled_pool_def defs Let_def)
  have cs4_ne: "cs4 \<noteq> []"
    using en class_chars_nonempty
    by (auto simp: cs4_def cs3_def cs2_def cs1_def defs)
  have rq4_len: "length rq4 = enabled_count opts"
    by (simp add: rq4_def rq3_def rq2_def rq1_def enabled_count_def defs)
  have rq4_sub: "set rq4 \<subseteq> set cs4"
    using c1 c2 c3 c4 by (auto simp: rq4_def rq3_def rq2_def rq1_def cs4_def cs3_def cs2_def cs1_def)
  have covU: "U \<longrightarrow> (\<exists>c\<in>set rq4. c \<in> set (uppercase_chars X))"
    using c1 by (auto simp: rq4_def rq3_def rq2_def rq1_def)
  have covL: "L \<longrightarrow> (\<exists>c\<in>set rq4. c \<in> set (lowercase_chars X))"
    using c2 by (auto simp: rq4_def rq3_def rq2_def)
  have covN: "N \<longrightarrow> (\<exists>c\<in>set rq4. c \<in> set (numbers_chars X))"
    using c3 by (auto simp: rq4_def rq3_def)
  have covS: "S \<longrightarrow> (\<exists>c\<in>set rq4. c \<in> set CHARS_symbols)"
    using c4 by (auto simp: rq4_def)
  obtain rem g5 where
    f: "fill_remaining (int (length rq4)) (max len (int (length rq4))) cs4 [] g4 = Inr (rem, g5)"
    and rem_len: "length rem = length ([]::js_string) + nat (max len (int (length rq4)) - int (length rq4))"
    and rem_sub: "set rem \<subseteq> set ([]::js_string) \<union> set cs4"
    using fill_remaining_Inr[OF cs4_ne] by blast
  obtain pw g6 where sh: "secureShuffleArray (rq4 @ rem) g5 = Inr (pw, g6)"
    and ms: "mset pw = mset (rq4 @ rem)"
    using secureShuffleArray_Inr by blast
  have "generatePassword opts g = Inr (pw, g6)"
    unfolding generatePassword_def Let_def
    using s1 s2 s3 s4 f sh cs4_ne
    by (simp add: defs [symmetric] cs1_def [symmetric] rq1_def [symmetric]
        cs2_def [symmetric] rq2_def [symmetric] cs3_def [symmetric] rq3_def [symmetric]
        cs4_def [symmetric] rq4_def [symmetric])
  moreover have "set (rq4 @ rem) \<subseteq> enabled_pool opts"
    using rq4_sub rem_sub cs4_set by auto
  ultimately show ?thesis
    using ms rq4_len rem_len covU covL covN covS
    unfolding defs by (intro exI[of _ pw] exI[of _ g6] exI[of _ rq4] exI[of _ rem]) simp
qed

lemma generatePassword_no_class:
  assumes "or_default True (uppercase opts) = False" "or_default True (lowercase opts) = False"
    "or_default True (numbers opts) = False" "or_default True (symbols opts) = False"
  shows "generatePassword opts g = Inl (Error ''At least one character type must be enabled'')"
  using assms by (simp add: generatePassword_def add_class_def Let_def)

lemma ambiguous_not_in_pool:
  assumes "or_default False (excludeAmbiguous opts)"
  shows "enabled_pool opts \<inter> set (str ''IOl01'') = {}"
proof -
  have "set (uppercase_chars True) \<inter> set (str ''IOl01'') = {}"
    by (simp add: uppercase_chars_def remove_chars_def CHARS_uppercase_def str_def)
  moreover have "set (lowercase_chars True) \<inter> set (str ''IOl01'') = {}"
    by (simp add: lowercase_chars_def remove_chars_def CHARS_lowercase_def str_def)
  moreover have "set (numbers_chars True) \<inter> set (str ''IOl01'') = {}"
    by (simp add: numbers_chars_def remove_chars_def CHARS_numbers_def str_def)
  moreover have "set CHARS_symbols \<inter> set (str ''IOl01'') = {}"
    by (simp add: CHARS_symbols_def str_def)
  ultimately show ?thesis using assms
    unfolding enabled_pool_def Let_def by (simp add: Int_Un_distrib2)
qed

lemma batch_loop_Inr:
  assumes en: "or_default True (uppercase opts) \<or> or_default True (lowercase opts)
     \<or> or_default True (numbers opts) \<or> or_default True (symbols opts)"
  shows "\<exists>new gs. batch_loop i m opts ps g = Inr (ps @ new, last gs)
     \<and> length new = nat (m - i) \<and> length gs = Suc (length new) \<and> gs ! 0 = g
     \<and> (\<forall>k<length new. generatePassword opts (gs ! k) = Inr (new ! k, gs ! Suc k))"
  using en
proof (induction i m opts ps g rule: batch_loop.induct)
  case (1 i maxCount options passwords g)
  show ?case
  proof (cases "i < maxCount")
    case False
    then have "batch_loop i maxCount options passwords g = Inr (passwords @ [], last [g])"
      by (subst batch_loop.simps) simp
    with False show ?thesis
      by (intro exI[of _ "[]"] exI[of _ "[g]"]) simp
  next
    case True
    obtain pw g1 where c: "generatePassword options g = Inr (pw, g1)"
      using generatePassword_shape[of options g] "1.prems" by blast
    from "1.IH"[OF True c refl "1.prems"] obtain new gs where
      r: "batch_loop (i + 1) maxCount options (passwords @ [pw]) g1 = Inr ((passwords @ [pw]) @ new, last gs)"
      and l: "length new = nat (maxCount - (i + 1))" and lg: "length gs = Suc (length new)"
      and g0: "gs ! 0 = g1"
      and ch: "\<forall>k<length new. generatePassword options (gs ! k) = Inr (new ! k, gs ! Suc k)"
      by blast
    have "batch_loop i maxCount options passwords g = Inr (passwords @ (pw # new), last (g # gs))"
      using True c r lg by (subst batch_loop.simps) auto
    moreover have "length (pw # new) = nat (maxCount - i)" using l True by simp
    moreover have "length (g # gs) = Suc (length (pw # new))" using lg by simp
    moreover have "\<forall>k<length (pw # new).
        generatePassword options ((g # gs) ! k) = Inr ((pw # new) ! k, (g # gs) ! Suc k)"
    proof (intro allI impI)
      fix k assume "k < length (pw # new)"
      then show "generatePassword options ((g # gs) ! k) = Inr ((pw # new) ! k, (g # gs) ! Suc k)"
        using c g0 ch by (cases k) auto
    qed
    ultimately show ?thesis
      by (intro exI[of _ "pw # new"] exI[of _ "g # gs"]) simp
  qed
qed

subsection \<open>The claims about the generator\<close>

text \<open>
  C1. With at least one class flag on after the defaults are resolved, \<open>generatePassword\<close>
  returns a password: its length is the maximum of the requested length and the number of
  enabled classes, and it holds a character of the effective charset of each enabled class.
  The requested length is an integer, as the data model has it.
\<close>

theorem generatePassword_length_and_classes:
  assumes "or_default True (uppercase opts) \<or> or_default True (lowercase opts)
     \<or> or_default True (numbers opts) \<or> or_default True (symbols opts)"
  shows "\<exists>pw g'. generatePassword opts g = Inr (pw, g')
     \<and> int (length pw) = max (or_default 16 (length_opt opts)) (int (enabled_count opts))
     \<and> (or_default True (uppercase opts) \<longrightarrow>
           (\<exists>c\<in>set pw. c \<in> set (uppercase_chars (or_default False (excludeAmbiguous opts)))))
     \<and> (or_default True (lowercase opts) \<longrightarrow>
           (\<exists>c\<in>set pw. c \<in> set (lowercase_chars (or_default False (excludeAmbiguous opts)))))
     \<and> (or_default True (numbers opts) \<longrightarrow>
           (\<exists>c\<in>set pw. c \<in> set (numbers_chars (or_default False (excludeAmbiguous opts)))))
     \<and> (or_default True (symbols opts) \<longrightarrow> (\<exists>c\<in>set pw. c \<in> set CHARS_symbols))"
proof -
  from generatePassword_shape[OF assms, of g] obtain pw g' req rem where
    r: "generatePassword opts g = Inr (pw, g')" and ms: "mset pw = mset (req @ rem)"
    and lr: "length req = enabled_count opts"
    and lrem: "length rem = nat (max (or_default 16 (length_opt opts)) (int (length req)) - int (length req))"
    and cU: "or_default True (uppercase opts) \<longrightarrow>
           (\<exists>c\<in>set req. c \<in> set (uppercase_chars (or_default False (excludeAmbiguous opts))))"
    and cL: "or_default True (lowercase opts) \<longrightarrow>
           (\<exists>c\<in>set req. c \<in> set (lowercase_chars (or_default False (excludeAmbiguous opts))))"
    and cN: "or_default True (numbers opts) \<longrightarrow>
           (\<exists>c\<in>set req. c \<in> set (numbers_chars (or_default False (excludeAmbiguous opts))))"
    and cS: "or_default True (symbols opts) \<longrightarrow> (\<exists>c\<in>set req. c \<in> set CHARS_symbols)"
    by blast
  have "length pw = length (req @ rem)" using ms by (rule mset_eq_length)
  then have len: "int (length pw) = max (or_default 16 (length_opt opts)) (int (enabled_count opts))"
    using lr lrem by simp
  have "set pw = set (req @ rem)" using ms by (rule mset_eq_setD)
  then have sub: "set req \<subseteq> set pw" by simp
  show ?thesis
    using r len cU cL cN cS sub
    by (intro exI[of _ pw] exI[of _ g']) blast
qed

theorem generatePassword_length_and_classes_witness:
  "\<exists>pw g'. generatePassword
       \<lparr>length_opt = Some 2, uppercase = None, lowercase = Some True, numbers = None,
        symbols = Some False, excludeAmbiguous = Some True\<rparr> sample_tape = Inr (pw, g')
     \<and> int (length pw) = 3
     \<and> (\<exists>c\<in>set pw. c \<in> set (uppercase_chars True))
     \<and> (\<exists>c\<in>set pw. c \<in> set (lowercase_chars True))
     \<and> (\<exists>c\<in>set pw. c \<in> set (numbers_chars True))"
  using generatePassword_length_and_classes
    [of "\<lparr>length_opt = Some 2, uppercase = None, lowercase = Some True, numbers = None,
        symbols = Some False, excludeAmbiguous = Some True\<rparr>" sample_tape]
  by (simp add: or_default_def enabled_count_def)

text \<open>
  C2. With all four class flags false, \<open>generatePassword\<close> throws
  \<open>At least one character type must be enabled\<close> and returns no password.
\<close>

theorem generatePassword_no_class_fails:
  assumes "uppercase opts = Some False" and "lowercase opts = Some False"
    and "numbers opts = Some False" and "symbols opts = Some False"
  shows "generatePassword opts g = Inl (Error ''At least one character type must be enabled'')"
  using assms by (intro generatePassword_no_class) (simp_all add: or_default_def)

theorem generatePassword_no_class_fails_witness:
  "generatePassword
     \<lparr>length_opt = None, uppercase = Some False, lowercase = Some False, numbers = Some False,
      symbols = Some False, excludeAmbiguous = None\<rparr> sample_tape
   = Inl (Error ''At least one character type must be enabled'')"
  using generatePassword_no_class_fails
    [of "\<lparr>length_opt = None, uppercase = Some False, lowercase = Some False, numbers = Some False,
      symbols = Some False, excludeAmbiguous = None\<rparr>" sample_tape]
  by simp

text \<open>
  C5. With \<open>excludeAmbiguous\<close> true, a password returned by \<open>generatePassword\<close> contains
  none of \<open>I\<close>, \<open>O\<close>, \<open>l\<close>, \<open>0\<close>, \<open>1\<close>.
\<close>

theorem generatePassword_excludes_ambiguous:
  assumes "excludeAmbiguous opts = Some True" and "generatePassword opts g = Inr (pw, g')"
  shows "set pw \<inter> set (str ''IOl01'') = {}"
proof -
  have en: "or_default True (uppercase opts) \<or> or_default True (lowercase opts)
     \<or> or_default True (numbers opts) \<or> or_default True (symbols opts)"
  proof (rule ccontr)
    assume "\<not> ?thesis"
    then have "generatePassword opts g = Inl (Error ''At least one character type must be enabled'')"
      by (intro generatePassword_no_class) simp_all
    with assms(2) show False by simp
  qed
  from generatePassword_shape[OF en, of g] assms(2) obtain req rem where
    ms: "mset pw = mset (req @ rem)" and sub: "set (req @ rem) \<subseteq> enabled_pool opts"
    by auto
  have "set pw = set (req @ rem)" using ms by (rule mset_eq_setD)
  moreover have "enabled_pool opts \<inter> set (str ''IOl01'') = {}"
    using assms(1) by (intro ambiguous_not_in_pool) (simp add: or_default_def)
  ultimately show ?thesis using sub by blast
qed

text \<open>The generator run on the sample tape.\<close>

lemma generatePassword_sample:
  "map_sum id fst (generatePassword
       \<lparr>length_opt = Some 6, uppercase = None, lowercase = Some True, numbers = None,
        symbols = Some False, excludeAmbiguous = Some True\<rparr> sample_tape) = Inr (str ''hkDp3a'')"
  by code_simp

theorem generatePassword_excludes_ambiguous_witness:
  "\<exists>g'. generatePassword
       \<lparr>length_opt = Some 6, uppercase = None, lowercase = Some True, numbers = None,
        symbols = Some False, excludeAmbiguous = Some True\<rparr> sample_tape = Inr (str ''hkDp3a'', g')
     \<and> set (str ''hkDp3a'') \<inter> set (str ''IOl01'') = {}"
proof -
  let ?o = "\<lparr>length_opt = Some 6, uppercase = None, lowercase = Some True, numbers = None,
        symbols = Some False, excludeAmbiguous = Some True\<rparr>"
  obtain g' where r: "generatePassword ?o sample_tape = Inr (str ''hkDp3a'', g')"
    using generatePassword_sample by (cases "generatePassword ?o sample_tape") auto
  have "excludeAmbiguous ?o = Some True" by simp
  from generatePassword_excludes_ambiguous[OF this r] r show ?thesis by blast
qed

text \<open>
  The batch generator calls \<open>generatePassword\<close>, so with no class enabled a batch of 150
  is an error and not a list of 100 passwords.
\<close>

theorem generateBatch_no_class_counterexample:
  "generateBatch 150
     \<lparr>length_opt = None, uppercase = Some False, lowercase = Some False, numbers = Some False,
      symbols = Some False, excludeAmbiguous = None\<rparr> sample_tape
   = Inl (Error ''At least one character type must be enabled'')"
  unfolding generateBatch_def
  by (subst batch_loop.simps) (simp add: generatePassword_no_class or_default_def)

text \<open>
  C4, amended. With at least one class flag on and a count of at least 1,
  \<open>generateBatch\<close> returns without error exactly \<open>min count 100\<close> passwords, in order, the
  \<open>k\<close>-th being the result of a call of \<open>generatePassword\<close> with the same options on the
  entropy left by the call before it; a count of 150 gives 100 passwords.
\<close>

theorem generateBatch_clamps:
  assumes "or_default True (uppercase opts) \<or> or_default True (lowercase opts)
     \<or> or_default True (numbers opts) \<or> or_default True (symbols opts)"
    and "1 \<le> cnt"
  shows "\<exists>ps gs. generateBatch cnt opts g = Inr (ps, last gs)
     \<and> length ps = nat (min cnt 100) \<and> length gs = Suc (length ps) \<and> gs ! 0 = g
     \<and> (\<forall>k<length ps. generatePassword opts (gs ! k) = Inr (ps ! k, gs ! Suc k))"
  using batch_loop_Inr[OF assms(1), of 0 "min cnt 100" "[]" g]
  by (simp add: generateBatch_def)

theorem generateBatch_clamps_witness:
  "\<exists>ps gs. generateBatch 150
       \<lparr>length_opt = Some 6, uppercase = None, lowercase = Some True, numbers = None,
        symbols = Some False, excludeAmbiguous = Some True\<rparr> sample_tape = Inr (ps, last gs)
     \<and> length ps = 100 \<and> length gs = Suc (length ps) \<and> gs ! 0 = sample_tape
     \<and> (\<forall>k<length ps. generatePassword
       \<lparr>length_opt = Some 6, uppercase = None, lowercase = Some True, numbers = None,
        symbols = Some False, excludeAmbiguous = Some True\<rparr> (gs ! k) = Inr (ps ! k, gs ! Suc k))"
  using generateBatch_clamps
    [of "\<lparr>length_opt = Some 6, uppercase = None, lowercase = Some True, numbers = None,
        symbols = Some False, excludeAmbiguous = Some True\<rparr>" 150 sample_tape]
  by (simp add: or_default_def)

section \<open>Properties of the analyzer\<close>

subsection \<open>Entropy and powers of two\<close>

lemma raw_entropy_nonneg: "0 \<le> raw_entropy p"
  by (simp add: raw_entropy_def)

lemma two_powr_mult_log:
  assumes "0 < (S::real)"
  shows "2 powr (real n * log 2 S) = S ^ n"
proof -
  have "2 powr (real n * log 2 S) = 2 powr (log 2 S * real n)"
    by (simp only: mult.commute)
  also have "\<dots> = (2 powr log 2 S) powr real n"
    by (simp only: powr_powr)
  also have "2 powr log 2 S = S" using assms by simp
  also have "S powr real n = S ^ n" using assms by (rule powr_realpow)
  finally show ?thesis .
qed

lemma two_powr_raw_entropy:
  "2 powr raw_entropy p = real (if charsetSize p = 0 then 1 else charsetSize p) ^ length p"
  unfolding raw_entropy_def by (rule two_powr_mult_log) simp

lemma mask_replicate: "concat (replicate n (str ''*'')) = replicate n (0x2A :: code_unit)"
  by (induction n) (simp_all add: str_def)

subsection \<open>The claims about the analyzer\<close>

text \<open>
  C6. The masked password of \<open>analyzeStrength p\<close> is the first three code units of \<open>p\<close>
  followed by one \<open>*\<close> for each remaining one; \<open>abcdef\<close> gives \<open>abc***\<close>, and a password of
  length at most 3 comes back unchanged.
\<close>

theorem analyzeStrength_mask:
  "password (analyzeStrength p) = take 3 p @ replicate (length p - 3) (0x2A :: code_unit)
   \<and> password (analyzeStrength (str ''abcdef'')) = str ''abc***''
   \<and> (length p \<le> 3 \<longrightarrow> password (analyzeStrength p) = p)"
proof -
  have m: "\<And>q. password (analyzeStrength q) = take 3 q @ replicate (length q - 3) (0x2A :: code_unit)"
    by (simp add: analyzeStrength_def Let_def mask_replicate nat_diff_distrib')
  have "password (analyzeStrength (str ''abcdef'')) = str ''abc***''"
    unfolding m by (simp add: str_def)
  with m show ?thesis by simp
qed

theorem analyzeStrength_mask_witness:
  "length (str ''ab'') \<le> 3 \<and> password (analyzeStrength (str ''ab'')) = str ''ab''
   \<and> password (analyzeStrength (str ''hunter2'')) = str ''hun****''"
  using analyzeStrength_mask [of "str ''ab''"] analyzeStrength_mask [of "str ''hunter2''"]
  by (simp add: str_def)

text \<open>
  C10. For every string, the empty one and those without any character of the four classes
  included, the call of \<open>analyzeStrength\<close> returns a result; its score is an integer from 0
  to 10, its entropy is not negative and its feedback is not empty.
\<close>

theorem analyze_total_and_bounded:
  "\<exists>r. analyze p g = Inr (r, g) \<and> 0 \<le> score r \<and> score r \<le> 10
     \<and> 0 \<le> entropy r \<and> feedback r \<noteq> []"
proof -
  have "0 \<le> raw_entropy p * 100" using raw_entropy_nonneg[of p] by simp
  then have "0 \<le> round (raw_entropy p * 100)" by (simp add: round_def)
  then have "0 \<le> entropy (analyzeStrength p)"
    by (simp add: analyzeStrength_def Let_def)
  moreover have "0 \<le> score (analyzeStrength p) \<and> score (analyzeStrength p) \<le> 10"
    by (simp add: analyzeStrength_def Let_def)
  moreover have "feedback (analyzeStrength p) \<noteq> []"
    by (simp add: analyzeStrength_def Let_def)
  ultimately show ?thesis by (simp add: analyze_def)
qed

subsection \<open>The entropy of the example \<open>Tr0ub4dor&3xyz\<close>\<close>

text \<open>
  \<open>log 2 94\<close> lies between \<open>662 / 101\<close> and \<open>780 / 119\<close>, which is tight enough to round
  \<open>1400 * log 2 94\<close> to 9176.
\<close>

lemma charsetSize_example: "charsetSize (str ''Tr0ub4dor&3xyz'') = 94"
  by (simp add: charsetSize_def hasLower_def hasUpper_def hasNumber_def hasSymbol_def
      is_lower_def is_upper_def is_digit_def is_symbol_def str_def)

lemma log2_94_lower: "662 / 101 \<le> log 2 94"
proof -
  have "(2::real) ^ 662 \<le> 94 ^ 101" by simp
  then have "log 2 ((2::real) ^ 662) \<le> log 2 (94 ^ 101)"
    by (subst log_le_cancel_iff) simp_all
  then have "662 \<le> 101 * log 2 94"
    by (simp only: log_nat_power[of 94 2 101] log_nat_power[of 2 2 662]) simp
  then show ?thesis by (simp add: field_simps)
qed

lemma log2_94_upper: "log 2 94 \<le> 780 / 119"
proof -
  have "(94::real) ^ 119 \<le> 2 ^ 780" by simp
  then have "log 2 ((94::real) ^ 119) \<le> log 2 (2 ^ 780)"
    by (subst log_le_cancel_iff) simp_all
  then have "119 * log 2 94 \<le> 780"
    by (simp only: log_nat_power[of 94 2 119] log_nat_power[of 2 2 780]) simp
  then show ?thesis by (simp add: field_simps)
qed

lemma round_example: "round (14 * log 2 94 * 100) = 9176"
proof -
  have "9176 - 1/2 \<le> 14 * log 2 94 * 100" using log2_94_lower by simp
  moreover have "14 * log 2 94 * 100 < 9176 + 1/2" using log2_94_upper by simp
  ultimately show ?thesis by (simp add: round_def floor_eq_iff)
qed

lemma entropy_example: "entropy (analyzeStrength (str ''Tr0ub4dor&3xyz'')) = 9176 / 100"
proof -
  have "raw_entropy (str ''Tr0ub4dor&3xyz'') = 14 * log 2 94"
    by (simp add: raw_entropy_def charsetSize_example) (simp add: str_def)
  then show ?thesis
    using round_example by (simp add: analyzeStrength_def Let_def)
qed

text \<open>
  The entropy field is rounded to two decimals: for \<open>Tr0ub4dor&3xyz\<close> it is 91.76 and not
  \<open>14 * log 2 94\<close>.
\<close>

theorem analyzeStrength_entropy_counterexample:
  "entropy (analyzeStrength (str ''Tr0ub4dor&3xyz'')) \<noteq> 14 * log 2 94"
proof -
  have "(9176 / 100 :: real) < 14 * (662 / 101)" by simp
  also have "\<dots> \<le> 14 * log 2 94" using log2_94_lower by simp
  finally show ?thesis by (simp add: entropy_example)
qed

lemma charsetSize_sets:
  "charsetSize p =
     (if \<exists>c\<in>set p. 0x61 \<le> c \<and> c \<le> 0x7A then 26 else 0)
     + (if \<exists>c\<in>set p. 0x41 \<le> c \<and> c \<le> 0x5A then 26 else 0)
     + (if \<exists>c\<in>set p. 0x30 \<le> c \<and> c \<le> 0x39 then 10 else 0)
     + (if \<exists>c\<in>set p. c \<in> set (str ''!@#$%^&*()_+-=[]{}|;:,.<>?'') then 32 else 0)"
  by (simp add: charsetSize_def hasLower_def hasUpper_def hasNumber_def hasSymbol_def
      list_ex_iff is_lower_def is_upper_def is_digit_def is_symbol_def)

text \<open>
  C7, amended. With \<open>S\<close> the sum of 26, 26, 10 and 32 over the classes present in \<open>p\<close>, the
  entropy of \<open>analyzeStrength p\<close> is \<open>length p * log 2 S\<close> rounded to two decimals (half up),
  so within 0.005 of it, and 0 when \<open>S\<close> is 0; for \<open>Tr0ub4dor&3xyz\<close> it is 91.76.
\<close>

theorem analyzeStrength_entropy_rounded:
  "charsetSize p =
     (if \<exists>c\<in>set p. 0x61 \<le> c \<and> c \<le> 0x7A then 26 else 0)
     + (if \<exists>c\<in>set p. 0x41 \<le> c \<and> c \<le> 0x5A then 26 else 0)
     + (if \<exists>c\<in>set p. 0x30 \<le> c \<and> c \<le> 0x39 then 10 else 0)
     + (if \<exists>c\<in>set p. c \<in> set (str ''!@#$%^&*()_+-=[]{}|;:,.<>?'') then 32 else 0)
   \<and> (charsetSize p = 0 \<longrightarrow> entropy (analyzeStrength p) = 0)
   \<and> (charsetSize p \<noteq> 0 \<longrightarrow>
        entropy (analyzeStrength p)
          = real_of_int (round (real (length p) * log 2 (real (charsetSize p)) * 100)) / 100
        \<and> \<bar>entropy (analyzeStrength p) - real (length p) * log 2 (real (charsetSize p))\<bar> \<le> 1 / 200)
   \<and> entropy (analyzeStrength (str ''Tr0ub4dor&3xyz'')) = 9176 / 100"
proof -
  have z: "charsetSize p = 0 \<longrightarrow> entropy (analyzeStrength p) = 0"
    by (simp add: analyzeStrength_def Let_def raw_entropy_def)
  have nz: "charsetSize p \<noteq> 0 \<longrightarrow>
        entropy (analyzeStrength p)
          = real_of_int (round (real (length p) * log 2 (real (charsetSize p)) * 100)) / 100"
    by (simp add: analyzeStrength_def Let_def raw_entropy_def)
  have bd: "\<bar>real_of_int (round (x * 100)) / 100 - x\<bar> \<le> 1 / 200" for x :: real
  proof -
    have "\<bar>real_of_int (round (x * 100)) - x * 100\<bar> \<le> 1 / 2"
      by (rule of_int_round_abs_le)
    then show ?thesis by (simp add: abs_le_iff field_simps)
  qed
  have cl: "charsetSize p \<noteq> 0 \<longrightarrow>
        \<bar>entropy (analyzeStrength p) - real (length p) * log 2 (real (charsetSize p))\<bar> \<le> 1 / 200"
  proof
    assume "charsetSize p \<noteq> 0"
    with nz have "entropy (analyzeStrength p)
          = real_of_int (round (real (length p) * log 2 (real (charsetSize p)) * 100)) / 100"
      by blast
    then show "\<bar>entropy (analyzeStrength p) - real (length p) * log 2 (real (charsetSize p))\<bar> \<le> 1 / 200"
      by (simp only: bd)
  qed
  from nz cl have both: "charsetSize p \<noteq> 0 \<longrightarrow>
        entropy (analyzeStrength p)
          = real_of_int (round (real (length p) * log 2 (real (charsetSize p)) * 100)) / 100
        \<and> \<bar>entropy (analyzeStrength p) - real (length p) * log 2 (real (charsetSize p))\<bar> \<le> 1 / 200"
    by blast
  show ?thesis
    by (intro conjI) (rule charsetSize_sets, rule z, rule both, rule entropy_example)
qed

theorem analyzeStrength_entropy_rounded_witness:
  "charsetSize (str ''abc'') = 26
   \<and> entropy (analyzeStrength (str ''abc'')) = real_of_int (round (3 * log 2 26 * 100)) / 100
   \<and> \<bar>entropy (analyzeStrength (str ''abc'')) - 3 * log 2 26\<bar> \<le> 1 / 200
   \<and> charsetSize [] = 0 \<and> entropy (analyzeStrength []) = 0"
proof -
  have a: "charsetSize (str ''abc'') = 26"
    by (simp add: charsetSize_def hasLower_def hasUpper_def hasNumber_def hasSymbol_def
      is_lower_def is_upper_def is_digit_def is_symbol_def str_def)
  have l: "length (str ''abc'') = 3" by (simp add: str_def)
  have e: "charsetSize [] = 0"
    by (simp add: charsetSize_def hasLower_def hasUpper_def hasNumber_def hasSymbol_def)
  show ?thesis
    using analyzeStrength_entropy_rounded [of "str ''abc''"] analyzeStrength_entropy_rounded [of "[]"]
    unfolding a l e by simp
qed

text \<open>
  C8. The crack time of \<open>analyzeStrength p\<close> is \<open>estimateCrackTime\<close> of the unrounded entropy
  \<open>length p * log 2 S\<close>; with \<open>seconds = 2 powr e / 10000000000 / 2\<close>, \<open>seconds < 1\<close> gives
  \<open>instant\<close>, and \<open>60 \<le> seconds < 3600\<close> gives the rounded number of minutes followed by
  \<open>minutes\<close>.
\<close>

theorem analyzeStrength_crackTime_buckets:
  "crackTime (analyzeStrength p)
     = estimateCrackTime (real (length p) * log 2 (real (if charsetSize p = 0 then 1 else charsetSize p)))
   \<and> (2 powr e / 10000000000 / 2 < 1 \<longrightarrow> estimateCrackTime e = ''instant'')
   \<and> (60 \<le> 2 powr e / 10000000000 / 2 \<and> 2 powr e / 10000000000 / 2 < 3600 \<longrightarrow>
        estimateCrackTime e
          = number_to_string (round (2 powr e / 10000000000 / 2 / 60)) @ '' minutes'')"
proof (intro conjI impI)
  show "crackTime (analyzeStrength p)
     = estimateCrackTime (real (length p) * log 2 (real (if charsetSize p = 0 then 1 else charsetSize p)))"
    by (simp add: analyzeStrength_def Let_def raw_entropy_def)
next
  assume "2 powr e / 10000000000 / 2 < 1"
  then show "estimateCrackTime e = ''instant''"
    by (simp add: estimateCrackTime_def crack_seconds_def Let_def)
next
  assume "60 \<le> 2 powr e / 10000000000 / 2 \<and> 2 powr e / 10000000000 / 2 < 3600"
  then have "\<not> crack_seconds e < 1" "\<not> crack_seconds e < 60" "crack_seconds e < 3600"
    by (simp_all add: crack_seconds_def)
  then show "estimateCrackTime e
          = number_to_string (round (2 powr e / 10000000000 / 2 / 60)) @ '' minutes''"
    by (simp add: estimateCrackTime_def Let_def) (simp add: crack_seconds_def)
qed

theorem analyzeStrength_crackTime_buckets_witness:
  "crackTime (analyzeStrength (str ''4815162342987'')) = ''8 minutes''
   \<and> crackTime (analyzeStrength (str ''abc'')) = ''instant''"
proof -
  have c1: "charsetSize (str ''4815162342987'') = 10"
    by (simp add: charsetSize_def hasLower_def hasUpper_def hasNumber_def hasSymbol_def
      is_lower_def is_upper_def is_digit_def is_symbol_def str_def)
  have l1: "length (str ''4815162342987'') = 13" by (simp add: str_def)
  have c2: "charsetSize (str ''abc'') = 26"
    by (simp add: charsetSize_def hasLower_def hasUpper_def hasNumber_def hasSymbol_def
      is_lower_def is_upper_def is_digit_def is_symbol_def str_def)
  have l2: "length (str ''abc'') = 3" by (simp add: str_def)
  have p1: "2 powr (real 13 * log 2 10) = (10::real) ^ 13"
    by (rule two_powr_mult_log) simp
  have p2: "2 powr (real 3 * log 2 26) = (26::real) ^ 3"
    by (rule two_powr_mult_log) simp
  have n8: "number_to_string 8 = ''8''" by code_simp
  have r8: "round (25 / 3 :: real) = 8" by (simp add: round_def floor_eq_iff)
  have "crackTime (analyzeStrength (str ''4815162342987'')) = ''8 minutes''"
    using analyzeStrength_crackTime_buckets [of "str ''4815162342987''" "real 13 * log 2 10"]
    unfolding c1 l1 p1 by (simp add: n8 r8)
  moreover have "crackTime (analyzeStrength (str ''abc'')) = ''instant''"
    using analyzeStrength_crackTime_buckets [of "str ''abc''" "real 3 * log 2 26"]
    unfolding c2 l2 p2 by simp
  ultimately show ?thesis by simp
qed

text \<open>
  \<open>analyzeStrength\<close> does no validation: on the empty string it returns a result.
\<close>

theorem analyze_empty_counterexample:
  "analyze [] sample_tape
     = Inr (\<lparr>password = [], score = 0, level = very_weak,
             feedback = [''Password is too short (minimum 8 characters)'',
                         ''Add lowercase letters'', ''Add uppercase letters'', ''Add numbers'',
                         ''Add special characters''],
             entropy = 0, crackTime = ''instant''\<rparr>, sample_tape)"
  by (simp add: analyze_def analyzeStrength_def raw_score_def raw_feedback_def raw_entropy_def
      charsetSize_def hasLower_def hasUpper_def hasNumber_def hasSymbol_def letters_only_def
      digits_only_def matches_any_ci_def sequential_patterns_def keyboard_patterns_def str_def
      level_of_def estimateCrackTime_def crack_seconds_def Let_def)

text \<open>
  C3, amended. It is the POST /strength handler that rejects a missing, non-string or empty
  password, with the error \<open>Password is required\<close>, before it calls the analyzer; the
  analyzer itself returns a result for the empty string.
\<close>

theorem post_strength_rejects:
  assumes "\<not> (\<exists>p. v = JString p \<and> p \<noteq> [])"
  shows "post_strength v g = Inl (Error ''Password is required'')
     \<and> (\<exists>r. analyze [] g = Inr (r, g))"
  using assms by (cases v) (simp_all add: analyze_def)

theorem post_strength_rejects_witness:
  "post_strength (JString []) sample_tape = Inl (Error ''Password is required'')
   \<and> post_strength JUndefined sample_tape = Inl (Error ''Password is required'')
   \<and> post_strength (JNumber 42) sample_tape = Inl (Error ''Password is required'')"
  using post_strength_rejects [of "JString []" sample_tape]
    post_strength_rejects [of JUndefined sample_tape]
    post_strength_rejects [of "JNumber 42" sample_tape]
  by simp

end
